theory Spec2Isabelle
  imports Complex_Main
begin

section \<open>Errors raised by the Python code\<close>

text \<open>
  Every exception the modelled code can raise is a value of this type; a function that
  can raise returns \<open>error + 'a\<close> with \<open>Inl\<close> for the exception.
\<close>

datatype error = ValueError | IndexError | UnboundLocalError | ZeroDivisionError

section \<open>Local-maxima labeler (\<open>_cluster\<close>)\<close>

text \<open>
  \<open>_cluster(X, radius, min_locs, frame)\<close> builds a KDTree over \<open>X\<close> and asks it for
  \<open>neighbors = tree.query_ball_tree(tree, radius)\<close>, a list holding, for every point,
  the list of the indices of the points within \<open>radius\<close> of it. The KDTree belongs to
  scipy, so the model takes \<open>neighbors\<close> as its input in place of \<open>X\<close> and \<open>radius\<close>;
  \<open>X.shape[0]\<close> is \<open>length neighbors\<close>. What the index guarantees about its answer
  (every index is in range, every point is its own neighbour) is the predicate
  \<open>wf_neighbors\<close>; the model itself is defined for every list of lists and raises
  where Python would.
\<close>

definition wf_neighbors :: "nat list list \<Rightarrow> bool" where
  "wf_neighbors neighbors =
     (\<forall>i \<in> set [0..<length neighbors].
        i \<in> set (neighbors ! i) \<and> (\<forall>j \<in> set (neighbors ! i). j < length neighbors))"

text \<open>\<open>max(xs)\<close> of Python: \<open>ValueError\<close> on the empty list.\<close>

fun py_max :: "nat list \<Rightarrow> error + nat" where
  "py_max [] = Inl ValueError"
| "py_max (x # xs) = Inr (fold max xs x)"

text \<open>The comprehension \<open>[len(neighbors[_]) for _ in idx]\<close>.\<close>

fun neighbor_counts :: "nat list list \<Rightarrow> nat list \<Rightarrow> error + nat list" where
  "neighbor_counts neighbors [] = Inr []"
| "neighbor_counts neighbors (k # idx) =
     (if k < length neighbors then
        (case neighbor_counts neighbors idx of
           Inl e \<Rightarrow> Inl e
         | Inr cs \<Rightarrow> Inr (length (neighbors ! k) # cs))
      else Inl IndexError)"

text \<open>
  The body of the first loop (lines 171-176): whether \<open>lm[i]\<close> is set to 1.
  \<open>i\<close> ranges over \<open>range(len(lm))\<close>, so \<open>neighbors[i]\<close> is read in range.
\<close>

definition is_local_maximum :: "nat list list \<Rightarrow> int \<Rightarrow> nat \<Rightarrow> error + bool" where
  "is_local_maximum neighbors min_locs i =
     (let idx = neighbors ! i;
          n = length idx
      in if int n > min_locs then
           (case neighbor_counts neighbors idx of
              Inl e \<Rightarrow> Inl e
            | Inr cs \<Rightarrow>
                (case py_max cs of
                   Inl e \<Rightarrow> Inl e
                 | Inr m \<Rightarrow> Inr (n = m)))
         else Inr False)"

fun local_maxima_loop :: "nat list list \<Rightarrow> int \<Rightarrow> nat list \<Rightarrow> error + int list" where
  "local_maxima_loop neighbors min_locs [] = Inr []"
| "local_maxima_loop neighbors min_locs (i # rest) =
     (case is_local_maximum neighbors min_locs i of
        Inl e \<Rightarrow> Inl e
      | Inr b \<Rightarrow>
          (case local_maxima_loop neighbors min_locs rest of
             Inl e \<Rightarrow> Inl e
           | Inr lm \<Rightarrow> Inr ((if b then 1 else 0) # lm)))"

text \<open>The array \<open>lm\<close> after the first loop: 1 at the local maxima, 0 elsewhere.\<close>

definition local_maxima :: "nat list list \<Rightarrow> int \<Rightarrow> error + int list" where
  "local_maxima neighbors min_locs =
     local_maxima_loop neighbors min_locs [0..<length neighbors]"

text \<open>\<open>lm_idx = np.where(lm == 1)[0]\<close>: the indices of the local maxima, ascending.\<close>

definition where_one :: "int list \<Rightarrow> nat list" where
  "where_one lm = filter (\<lambda>i. lm ! i = 1) [0..<length lm]"

text \<open>
  The body of the inner loop (lines 185-191), for the local maximum \<open>i\<close>, its position
  \<open>count\<close> in \<open>lm_idx\<close> and the neighbour \<open>j\<close>. Reading or writing \<open>labels\<close> out of
  range raises \<open>IndexError\<close>. The test \<open>j == 0\<close> compares the neighbour's index with 0.
\<close>

definition visit :: "nat \<Rightarrow> int \<Rightarrow> nat \<Rightarrow> int list \<Rightarrow> error + int list" where
  "visit i count j labels =
     (if length labels \<le> i then Inl IndexError
      else if labels ! i = - 1 then
        (if length labels \<le> j then Inl IndexError
         else Inr ((if j = 0 then labels[i := count] else labels)[j := count]))
      else if length labels \<le> j then Inl IndexError
      else if labels ! j = - 1 then Inr (labels[j := labels ! i])
      else Inr labels)"

text \<open>The inner loop \<open>for j in neighbors[i]\<close>.\<close>

fun propagate :: "nat \<Rightarrow> int \<Rightarrow> nat list \<Rightarrow> int list \<Rightarrow> error + int list" where
  "propagate i count [] labels = Inr labels"
| "propagate i count (j # js) labels =
     (case visit i count j labels of
        Inl e \<Rightarrow> Inl e
      | Inr labels' \<Rightarrow> propagate i count js labels')"

text \<open>The outer loop \<open>for count, i in enumerate(lm_idx)\<close>, from the counter \<open>count\<close> on.\<close>

fun assign_labels ::
  "nat list list \<Rightarrow> int \<Rightarrow> nat list \<Rightarrow> int list \<Rightarrow> error + int list" where
  "assign_labels neighbors count [] labels = Inr labels"
| "assign_labels neighbors count (i # lm_idx) labels =
     (if length neighbors \<le> i then Inl IndexError
      else
        (case propagate i count (neighbors ! i) labels of
           Inl e \<Rightarrow> Inl e
         | Inr labels' \<Rightarrow> assign_labels neighbors (count + 1) lm_idx labels'))"

text \<open>
  The labeler: \<open>_cluster\<close> with \<open>frame = None\<close>, that is, up to line 191. The labels
  start at \<open>-1\<close> everywhere.
\<close>

definition cluster_labels :: "nat list list \<Rightarrow> int \<Rightarrow> error + int list" where
  "cluster_labels neighbors min_locs =
     (case local_maxima neighbors min_locs of
        Inl e \<Rightarrow> Inl e
      | Inr lm \<Rightarrow>
          assign_labels neighbors 0 (where_one lm)
            (replicate (length neighbors) (- 1)))"

section \<open>Frame-analysis filter (\<open>_frame_analysis\<close>, \<open>frame_analysis\<close>)\<close>

text \<open>
  numpy computes in IEEE double precision. The model computes with exact reals and adds
  one value, \<open>NonFin\<close>, for the results that are not finite numbers (NaN, \<open>inf\<close>,
  \<open>-inf\<close>), which numpy returns with a warning where an exact computation is undefined:
  on division by zero and on the square root of a negative number. Rounding and overflow
  are not modelled. In the code modelled here a divisor is infinite only where the
  dividend is not finite either (in \<open>np.average\<close>, when a weight is infinite), so an
  operation with a non-finite operand never gives a finite result, and \<open>NonFin\<close> is
  absorbing.
\<close>

datatype npf = Fin real | NonFin

fun np_add :: "npf \<Rightarrow> npf \<Rightarrow> npf" where
  "np_add (Fin a) (Fin b) = Fin (a + b)"
| "np_add _ _ = NonFin"

fun np_sub :: "npf \<Rightarrow> npf \<Rightarrow> npf" where
  "np_sub (Fin a) (Fin b) = Fin (a - b)"
| "np_sub _ _ = NonFin"

fun np_mul :: "npf \<Rightarrow> npf \<Rightarrow> npf" where
  "np_mul (Fin a) (Fin b) = Fin (a * b)"
| "np_mul _ _ = NonFin"

fun np_div :: "npf \<Rightarrow> npf \<Rightarrow> npf" where
  "np_div (Fin a) (Fin b) = (if b = 0 then NonFin else Fin (a / b))"
| "np_div _ _ = NonFin"


text \<open>\<open>a.sum()\<close> of an array that may hold non-finite values.\<close>

definition np_sum :: "npf list \<Rightarrow> npf" where
  "np_sum xs = foldr np_add xs (Fin 0)"

text \<open>\<open>a.mean()\<close> of an array of finite values: NaN for the empty array.\<close>

definition np_mean :: "real list \<Rightarrow> npf" where
  "np_mean xs = np_div (Fin (sum_list xs)) (Fin (real (length xs)))"

text \<open>
  The comparisons \<open><\<close> and \<open>>\<close> against a mean: a mean is a finite number or the NaN
  of an empty array, and every comparison with NaN is false.
\<close>

fun np_less :: "npf \<Rightarrow> npf \<Rightarrow> bool" where
  "np_less (Fin a) (Fin b) = (a < b)"
| "np_less _ _ = False"

text \<open>
  \<open>np.histogram(a, bins)[0]\<close> for an integer \<open>bins\<close> and no \<open>range\<close> argument, as numpy
  documents it: \<open>bins\<close> bins of equal width over \<open>[a.min(), a.max()]\<close>, each half-open
  but the last, which holds its right edge as well; the range is \<open>[0, 1]\<close> for an
  empty array, and is widened by 0.5 on either side when \<open>a.min() = a.max()\<close>.
\<close>

definition histogram_range :: "real list \<Rightarrow> real \<times> real" where
  "histogram_range a =
     (if a = [] then (0, 1)
      else
        (let first_edge = fold min (tl a) (hd a);
             last_edge = fold max (tl a) (hd a)
         in if first_edge = last_edge then (first_edge - 1 / 2, last_edge + 1 / 2)
            else (first_edge, last_edge)))"

definition bin_index :: "real \<Rightarrow> real \<Rightarrow> nat \<Rightarrow> real \<Rightarrow> nat" where
  "bin_index first_edge last_edge bins v =
     (if v = last_edge then bins - 1
      else nat \<lfloor>(v - first_edge) / (last_edge - first_edge) * real bins\<rfloor>)"

definition np_histogram :: "real list \<Rightarrow> nat \<Rightarrow> nat list" where
  "np_histogram a bins =
     (case histogram_range a of
        (first_edge, last_edge) \<Rightarrow>
          map (\<lambda>k. length (filter (\<lambda>v. bin_index first_edge last_edge bins v = k) a))
            [0..<bins])"

text \<open>
  \<open>_frame_analysis(frame, n_frames)\<close> (lines 79-97), on the frames of one group:
  1 if the group passes, 0 otherwise. \<open>locs_binned.max()\<close> is taken over 21 counts.
  (A name cannot begin with an underscore here: \<open>priv_\<close> stands for it.)
\<close>

definition priv_frame_analysis :: "nat list \<Rightarrow> nat \<Rightarrow> int" where
  "priv_frame_analysis frame n_frames =
     (let mean_frame = np_mean (map real frame);
          n_locs = length frame;
          locs_binned = np_histogram (map real frame) 21;
          max_locs_bin = fold max locs_binned 0
      in if np_less mean_frame (Fin (0.2 * real n_frames))
            \<or> np_less (Fin (0.8 * real n_frames)) mean_frame
            \<or> real max_locs_bin > 0.8 * real n_locs
         then 0 else 1)"

text \<open>
  \<open>frame_pd.groupby(frame_pd.index)\<close>: the frames of the points whose label is \<open>l\<close>,
  in their order.
\<close>

definition group_frames :: "int list \<Rightarrow> nat list \<Rightarrow> int \<Rightarrow> nat list" where
  "group_frames labels frame l =
     map snd (filter (\<lambda>(lab, f). lab = l) (zip labels frame))"

text \<open>
  \<open>frame_analysis(labels, frame)\<close> (lines 124-135). \<open>pd.Series(frame, index=labels)\<close>
  raises \<open>ValueError\<close> when the lengths differ, and \<open>frame.max()\<close> raises it on an
  empty array. The groups are keyed by the distinct labels in ascending order, the label
  \<open>-1\<close> among them. The Python writes into \<open>labels\<close> and returns it; the model returns
  the new array.
\<close>

definition frame_analysis :: "int list \<Rightarrow> nat list \<Rightarrow> error + int list" where
  "frame_analysis labels frame =
     (if length frame \<noteq> length labels then Inl ValueError
      else if frame = [] then Inl ValueError
      else
        (let n_frames = fold max (tl frame) (hd frame);
             true_cluster =
               map (\<lambda>l. (l, priv_frame_analysis (group_frames labels frame l) n_frames))
                 (sort (remdups labels));
             discard = map fst (filter (\<lambda>(l, passed). passed = 0) true_cluster)
         in Inr (map (\<lambda>lab. if lab \<in> set discard then - 1 else lab) labels)))"

section \<open>The whole of \<open>_cluster\<close>\<close>

text \<open>
  The answer of the spatial index, by its contract: for every point the indices of the
  points at Euclidean distance at most \<open>radius\<close> (for \<open>radius \<ge> 0\<close>), the point itself
  among them, here in ascending order. The labeler depends on the order of each list; the
  theorems about it below hold for every order.
\<close>

definition dist_sq :: "real list \<Rightarrow> real list \<Rightarrow> real" where
  "dist_sq p q = sum_list (map2 (\<lambda>a b. (a - b)\<^sup>2) p q)"

definition query_ball_tree :: "real list list \<Rightarrow> real \<Rightarrow> nat list list" where
  "query_ball_tree X radius =
     map (\<lambda>p. filter (\<lambda>j. dist_sq p (X ! j) \<le> radius\<^sup>2) [0..<length X]) X"

definition priv_cluster ::
  "real list list \<Rightarrow> real \<Rightarrow> int \<Rightarrow> nat list option \<Rightarrow> error + int list" where
  "priv_cluster X radius min_locs frame =
     (case cluster_labels (query_ball_tree X radius) min_locs of
        Inl e \<Rightarrow> Inl e
      | Inr labels \<Rightarrow>
          (case frame of
             None \<Rightarrow> Inr labels
           | Some f \<Rightarrow> frame_analysis labels f))"

section \<open>Cluster aggregator (\<open>error_sums_wtd\<close>, \<open>cluster_center\<close>)\<close>



text \<open>
  \<open>error_sums_wtd(x, w)\<close> (line 337):
  \<open>(w * (x - (w * x).sum() / w.sum())**2).sum() / w.sum()\<close>, on two columns of one
  table.
\<close>

definition error_sums_wtd :: "real list \<Rightarrow> real list \<Rightarrow> npf" where
  "error_sums_wtd x w =
     (let m = np_div (Fin (sum_list (map2 (*) w x))) (Fin (sum_list w))
      in np_div
           (np_sum (map2 (\<lambda>wi xi. np_mul (Fin wi) (let d = np_sub (Fin xi) m in np_mul d d))
              w x))
           (Fin (sum_list w)))"

text \<open>
  \<open>np.average(a, weights=weights)\<close>: \<open>ZeroDivisionError\<close> when the weights sum to
  zero, else \<open>(a * weights).sum() / weights.sum()\<close>.
\<close>

definition np_average :: "real list \<Rightarrow> npf list \<Rightarrow> error + npf" where
  "np_average a weights =
     (let scl = np_sum weights
      in if scl = Fin 0 then Inl ZeroDivisionError
         else Inr (np_div (np_sum (map2 (\<lambda>ai wi. np_mul (Fin ai) wi) a weights)) scl))"


text \<open>
  The estimator the specification names, on plain reals: the mean of \<open>v\<close> under the
  weights \<open>w\<close>, and the weighted variance \<open>\<Sum> w\<^sub>i (v\<^sub>i - mean)\<^sup>2 / \<Sum> w\<^sub>i\<close>.
\<close>

definition weighted_mean :: "real list \<Rightarrow> real list \<Rightarrow> real" where
  "weighted_mean v w = (\<Sum>i<length v. w ! i * v ! i) / (\<Sum>i<length v. w ! i)"

definition weighted_variance :: "real list \<Rightarrow> real list \<Rightarrow> real" where
  "weighted_variance v w =
     (\<Sum>i<length v. w ! i * (v ! i - weighted_mean v w)\<^sup>2) / (\<Sum>i<length v. w ! i)"

section \<open>Example inputs\<close>

text \<open>
  Seven points on a line, radius 1: two at \<open>-1\<close>, one each at 0, 1 and 2, two at 3.
  Points 2 and 4 have four neighbours each, every other point three.
\<close>

definition line7 :: "real list list" where
  "line7 = [[- 1], [- 1], [0], [1], [2], [3], [3]]"

definition line7_neighbors :: "nat list list" where
  "line7_neighbors =
     [[0, 1, 2], [0, 1, 2], [0, 1, 2, 3], [2, 3, 4], [3, 4, 5, 6], [4, 5, 6], [4, 5, 6]]"






section \<open>Local-maximum detection\<close>

text \<open>The answer of the modelled index is well formed.\<close>

lemma dist_sq_self: "dist_sq p p = 0"
proof -
  have "sum_list (map2 (\<lambda>a b. (a - b)\<^sup>2) p p) = (0::real)"
    by (induction p) simp_all
  then show ?thesis by (simp add: dist_sq_def)
qed

lemma wf_query_ball_tree: "0 \<le> radius \<Longrightarrow> wf_neighbors (query_ball_tree X radius)"
  by (simp add: wf_neighbors_def query_ball_tree_def dist_sq_self)

lemma py_max_Max:
  "cs \<noteq> [] \<Longrightarrow> py_max cs = Inr (Max (set cs))"
proof (cases cs)
  case Nil
  assume "cs \<noteq> []"
  with Nil show ?thesis by simp
next
  case (Cons c rest)
  have "Max (set (c # rest)) = fold max rest c"
    by (rule Max.set_eq_fold)
  with Cons show ?thesis by (simp del: set_simps)
qed

lemma neighbor_counts_in_range:
  "\<forall>k \<in> set idx. k < length neighbors \<Longrightarrow>
   neighbor_counts neighbors idx = Inr (map (\<lambda>k. length (neighbors ! k)) idx)"
  by (induction idx) simp_all

lemma is_local_maximum_wf:
  assumes "wf_neighbors neighbors" and "i < length neighbors"
  shows "is_local_maximum neighbors min_locs i =
         Inr (int (length (neighbors ! i)) > min_locs \<and>
              length (neighbors ! i) =
                Max ((\<lambda>j. length (neighbors ! j)) ` set (neighbors ! i)))"
proof -
  from assms have self: "i \<in> set (neighbors ! i)"
    and range: "\<forall>j \<in> set (neighbors ! i). j < length neighbors"
    by (simp_all add: wf_neighbors_def)
  from self have ne: "map (\<lambda>k. length (neighbors ! k)) (neighbors ! i) \<noteq> []"
    by auto
  show ?thesis
    by (simp add: is_local_maximum_def Let_def neighbor_counts_in_range [OF range]
        py_max_Max [OF ne])
qed

lemma local_maxima_loop_wf:
  assumes "wf_neighbors neighbors" and "\<forall>i \<in> set is. i < length neighbors"
  shows "local_maxima_loop neighbors min_locs is =
         Inr (map (\<lambda>i. if int (length (neighbors ! i)) > min_locs \<and>
                           length (neighbors ! i) =
                             Max ((\<lambda>j. length (neighbors ! j)) ` set (neighbors ! i))
                        then 1 else 0) is)"
  using assms(2)
  by (induction "is") (simp_all add: is_local_maximum_wf [OF assms(1)])

text \<open>
  C10. For a well-formed neighbour structure the first loop raises nothing, and it marks
  point \<open>i\<close> (\<open>lm[i] = 1\<close>) exactly when its self-inclusive neighbour count exceeds
  \<open>min_locs\<close> and equals the maximum of the counts over its neighbours; nothing else
  enters the decision, so every point tied for the maximum is marked.
\<close>

theorem local_maximum_iff:
  assumes "wf_neighbors neighbors" and "i < length neighbors"
  shows "\<exists>lm. local_maxima neighbors min_locs = Inr lm \<and>
              length lm = length neighbors \<and>
              (lm ! i = 1 \<longleftrightarrow>
                 int (length (neighbors ! i)) > min_locs \<and>
                 length (neighbors ! i) =
                   Max ((\<lambda>j. length (neighbors ! j)) ` set (neighbors ! i)))"
proof -
  have "local_maxima neighbors min_locs =
        Inr (map (\<lambda>i. if int (length (neighbors ! i)) > min_locs \<and>
                          length (neighbors ! i) =
                            Max ((\<lambda>j. length (neighbors ! j)) ` set (neighbors ! i))
                       then 1 else 0) [0..<length neighbors])"
    unfolding local_maxima_def
    by (rule local_maxima_loop_wf [OF assms(1)]) simp
  with assms(2) show ?thesis by simp
qed

theorem local_maximum_iff_witness:
  "wf_neighbors line7_neighbors \<and> 2 < length line7_neighbors \<and>
   (\<exists>lm. local_maxima line7_neighbors 3 = Inr lm \<and> lm ! 2 = 1 \<and>
      (3 < int (length (line7_neighbors ! 2)) \<and>
       length (line7_neighbors ! 2) =
         Max ((\<lambda>j. length (line7_neighbors ! j)) ` set (line7_neighbors ! 2))))"
proof -
  have wf: "wf_neighbors line7_neighbors"
    unfolding line7_neighbors_def by code_simp
  have i: "2 < length line7_neighbors" by (simp add: line7_neighbors_def)
  have lm: "local_maxima line7_neighbors 3 = Inr [0, 0, 1, 0, 1, 0, 0]"
    unfolding line7_neighbors_def by code_simp
  from local_maximum_iff [OF wf i, of 3] lm wf i show ?thesis by auto
qed


section \<open>Label propagation\<close>


lemma visit_length:
  "visit i c j l = Inr l' \<Longrightarrow> length l' = length l"
  by (auto simp: visit_def split: if_splits)

lemma visit_total:
  "i < length l \<Longrightarrow> j < length l \<Longrightarrow> \<exists>l'. visit i c j l = Inr l'"
  by (simp add: visit_def)





lemma visit_keeps:
  "visit i c j l = Inr l' \<Longrightarrow> l ! i \<noteq> - 1 \<Longrightarrow> k < length l \<Longrightarrow> l ! k \<noteq> - 1 \<Longrightarrow>
   l' ! k = l ! k"
  by (auto simp: visit_def nth_list_update split: if_splits)


lemma propagate_total:
  "i < length l \<Longrightarrow> \<forall>j \<in> set js. j < length l \<Longrightarrow> \<exists>l'. propagate i c js l = Inr l'"
proof (induction js arbitrary: l)
  case Nil
  show ?case by simp
next
  case (Cons j js)
  from Cons.prems obtain l1 where v: "visit i c j l = Inr l1"
    using visit_total [of i l j c] by auto
  then have "length l1 = length l" by (rule visit_length)
  with Cons.prems have "\<exists>l'. propagate i c js l1 = Inr l'"
    by (intro Cons.IH) auto
  with v show ?case by simp
qed





lemma propagate_keeps:
  "propagate i c js l = Inr l' \<Longrightarrow> l ! i \<noteq> - 1 \<Longrightarrow> k < length l \<Longrightarrow> l ! k \<noteq> - 1 \<Longrightarrow>
   l' ! k = l ! k"
proof (induction js arbitrary: l)
  case Nil
  then show ?case by simp
next
  case (Cons j js)
  from Cons.prems(1) obtain l1 where v: "visit i c j l = Inr l1"
    and p: "propagate i c js l1 = Inr l'"
    by (auto split: sum.splits)
  from v have i: "i < length l" by (auto simp: visit_def split: if_splits)
  from v Cons.prems(2) i have "l1 ! i = l ! i" by (rule_tac visit_keeps)
  with Cons.prems(2) have 1: "l1 ! i \<noteq> - 1" by simp
  from v Cons.prems have 2: "l1 ! k = l ! k" by (rule_tac visit_keeps)
  from v Cons.prems(3) have 3: "k < length l1" by (simp add: visit_length)
  from 2 Cons.prems(4) have 4: "l1 ! k \<noteq> - 1" by simp
  from Cons.IH [OF p 1 3 4] 2 show ?case by simp
qed









section \<open>What the labeler returns\<close>




lemma length_where_one: "length (where_one lm) \<le> length lm"
  unfolding where_one_def using length_filter_le [of "\<lambda>i. lm ! i = 1" "[0..<length lm]"] by simp








text \<open>
  C3 (as stated) fails. On seven points on a line with \<open>min_locs = 3\<close> the local maxima
  are points 2 and 4. After point 2 has been processed, point 3 carries label 0 and
  point 4 none. The first neighbour point 4 visits is point 3, and the visit changes its
  label from 0 to 1.
\<close>

theorem labelled_neighbor_relabelled:
  "query_ball_tree line7 1 = line7_neighbors \<and>
   local_maxima line7_neighbors 3 = Inr [0, 0, 1, 0, 1, 0, 0] \<and>
   assign_labels line7_neighbors 0 [2] (replicate 7 (- 1)) = Inr [0, 0, 0, 0, - 1, - 1, - 1] \<and>
   line7_neighbors ! 4 = [3, 4, 5, 6] \<and>
   visit 4 1 3 [0, 0, 0, 0, - 1, - 1, - 1] = Inr [0, 0, 0, 1, - 1, - 1, - 1] \<and>
   priv_cluster line7 1 3 None = Inr [0, 0, 0, 1, 1, 1, 1]"
proof -
  have q: "query_ball_tree line7 1 = line7_neighbors"
    by (simp add: query_ball_tree_def dist_sq_def line7_def line7_neighbors_def upt_rec)
  have lm: "local_maxima line7_neighbors 3 = Inr [0, 0, 1, 0, 1, 0, 0]"
    unfolding line7_neighbors_def by code_simp
  have a: "assign_labels line7_neighbors 0 [2] (replicate 7 (- 1)) =
           Inr [0, 0, 0, 0, - 1, - 1, - 1]"
    unfolding line7_neighbors_def by code_simp
  have n: "line7_neighbors ! 4 = [3, 4, 5, 6]"
    by (simp add: line7_neighbors_def)
  have v: "visit 4 1 3 [0, 0, 0, 0, - 1, - 1, - 1] = Inr [0, 0, 0, 1, - 1, - 1, - 1]"
    by (simp add: visit_def)
  have c: "cluster_labels line7_neighbors 3 = Inr [0, 0, 0, 1, 1, 1, 1]"
    unfolding line7_neighbors_def by code_simp
  from q lm a n v c show ?thesis by (simp add: priv_cluster_def)
qed

text \<open>
  C3 (amended). While a local maximum \<open>i\<close> that carries a label already is processed,
  no labelled point is relabelled: the pass over its neighbours raises nothing and
  leaves every label other than \<open>-1\<close> as it was.
\<close>

theorem labelled_kept_when_maximum_labelled:
  assumes "i < length labels" and "\<forall>j \<in> set js. j < length labels" and "labels ! i \<noteq> - 1"
  shows "\<exists>labels'. propagate i count js labels = Inr labels' \<and>
           (\<forall>k < length labels. labels ! k \<noteq> - 1 \<longrightarrow> labels' ! k = labels ! k)"
proof -
  from propagate_total [OF assms(1,2)] obtain labels' where
    p: "propagate i count js labels = Inr labels'" by blast
  with assms(3) have "\<forall>k < length labels. labels ! k \<noteq> - 1 \<longrightarrow> labels' ! k = labels ! k"
    by (auto dest: propagate_keeps)
  with p show ?thesis by blast
qed

theorem labelled_kept_when_maximum_labelled_witness:
  "(2::nat) < length [0, 0, 5, - 1::int] \<and> [0, 0, 5, - 1::int] ! 2 \<noteq> - 1 \<and>
   (\<exists>labels'. propagate 2 7 [1, 2, 3] [0, 0, 5, - 1] = Inr labels' \<and>
      labels' ! 0 = 0 \<and> labels' ! 1 = 0 \<and> labels' ! 2 = 5)"
proof -
  have 1: "(2::nat) < length [0, 0, 5, - 1::int]" by simp
  have 2: "\<forall>j \<in> set [1, 2, 3::nat]. j < length [0, 0, 5, - 1::int]" by simp
  have 3: "[0, 0, 5, - 1::int] ! 2 \<noteq> - 1" by simp
  from labelled_kept_when_maximum_labelled [OF 1 2 3, of 7] obtain labels' where
    p: "propagate 2 7 [1, 2, 3] [0, 0, 5, - 1] = Inr labels'" and
    k: "\<forall>k < length [0, 0, 5, - 1::int].
          [0, 0, 5, - 1::int] ! k \<noteq> - 1 \<longrightarrow> labels' ! k = [0, 0, 5, - 1::int] ! k"
    by blast
  from k [rule_format, of 0] k [rule_format, of 1] k [rule_format, of 2]
  have "labels' ! 0 = 0" and "labels' ! 1 = 0" and "labels' ! 2 = 5" by simp_all
  with p 1 3 show ?thesis by blast
qed

section \<open>What the frame-analysis filter returns\<close>

lemma fold_max_Max:
  fixes xs :: "nat list"
  shows "xs \<noteq> [] \<Longrightarrow> fold max (tl xs) (hd xs) = Max (set xs)"
  by (cases xs) (simp_all add: Max.set_eq_fold del: set_simps)

lemma priv_frame_analysis_cases:
  "priv_frame_analysis frame n_frames = 0 \<or> priv_frame_analysis frame n_frames = 1"
  by (simp add: priv_frame_analysis_def Let_def)


lemma frame_analysis_Inr:
  assumes "length frame = length labels" and "frame \<noteq> []"
  shows "frame_analysis labels frame =
         Inr (map (\<lambda>lab. if priv_frame_analysis (group_frames labels frame lab)
                               (Max (set frame)) = 0
                          then - 1 else lab) labels)"
proof -
  have "map (\<lambda>lab. if lab \<in> set (map fst (filter (\<lambda>(l, passed). passed = 0)
            (map (\<lambda>l. (l, priv_frame_analysis (group_frames labels frame l) (Max (set frame))))
               (sort (remdups labels))))) then - 1 else lab) labels =
        map (\<lambda>lab. if priv_frame_analysis (group_frames labels frame lab) (Max (set frame)) = 0
                    then - 1 else lab) labels"
    by (rule map_cong) (auto simp: image_iff)
  with assms show ?thesis
    by (simp add: frame_analysis_def Let_def fold_max_Max)
qed

lemma frame_analysis_Inr_D:
  "frame_analysis labels frame = Inr out \<Longrightarrow> length frame = length labels \<and> frame \<noteq> []"
  by (auto simp: frame_analysis_def split: if_splits)

lemma group_frames_relabel:
  assumes "\<And>x. x \<in> set labels \<Longrightarrow> (g x = l) = (x = l)"
  shows "group_frames (map g labels) frame l = group_frames labels frame l"
  using assms
proof (induction labels arbitrary: frame)
  case Nil
  show ?case by (simp add: group_frames_def)
next
  case (Cons a labels)
  show ?case
  proof (cases frame)
    case Nil
    then show ?thesis by (simp add: group_frames_def)
  next
    case (Cons f fs)
    from Cons.prems have "group_frames (map g labels) fs l = group_frames labels fs l"
      by (intro Cons.IH) simp
    moreover from Cons.prems have "(g a = l) = (a = l)" by simp
    ultimately show ?thesis using Cons by (simp add: group_frames_def)
  qed
qed

text \<open>
  C9. On label and frame arrays of one length, not empty, the filter returns, and
  applying it to its own output with the same frames returns that output again. (On
  other inputs the first application raises \<open>ValueError\<close>.)
\<close>

theorem frame_analysis_idempotent:
  assumes "length frame = length labels" and "frame \<noteq> []"
  shows "\<exists>out. frame_analysis labels frame = Inr out \<and> frame_analysis out frame = Inr out"
proof -
  define n where "n = Max (set frame)"
  define g where "g = (\<lambda>lab. if priv_frame_analysis (group_frames labels frame lab) n = 0
                              then - 1 else lab)"
  define out where "out = map g labels"
  have first: "frame_analysis labels frame = Inr out"
    unfolding out_def g_def n_def by (rule frame_analysis_Inr [OF assms])
  have len: "length frame = length out" using assms(1) by (simp add: out_def)
  have second: "frame_analysis out frame =
         Inr (map (\<lambda>lab. if priv_frame_analysis (group_frames out frame lab) n = 0
                          then - 1 else lab) out)"
    unfolding n_def by (rule frame_analysis_Inr [OF len assms(2)])
  have "map (\<lambda>lab. if priv_frame_analysis (group_frames out frame lab) n = 0
                    then - 1 else lab) out = map (\<lambda>lab. lab) out"
  proof (rule map_cong [OF refl])
    fix l assume "l \<in> set out"
    then obtain lab where lab: "lab \<in> set labels" and l: "l = g lab"
      by (auto simp: out_def)
    show "(if priv_frame_analysis (group_frames out frame l) n = 0 then - 1 else l) = l"
    proof (cases "l = - 1")
      case True
      then show ?thesis by simp
    next
      case False
      with l have keep: "priv_frame_analysis (group_frames labels frame lab) n \<noteq> 0"
        and eq: "l = lab"
        by (auto simp: g_def split: if_splits)
      have "\<And>x. x \<in> set labels \<Longrightarrow> (g x = l) = (x = l)"
        using False keep eq by (auto simp: g_def)
      then have "group_frames out frame l = group_frames labels frame l"
        unfolding out_def by (rule group_frames_relabel)
      with keep eq show ?thesis by simp
    qed
  qed
  with second have "frame_analysis out frame = Inr out" by simp
  with first show ?thesis by blast
qed


text \<open>Evaluations of the filter on concrete groups.\<close>

lemma histogram_500_501:
  "np_histogram [500, 501] 21 =
     [1, 0, 0, 0, 0, 0, 0, 0, 0, 0, 0, 0, 0, 0, 0, 0, 0, 0, 0, 0, 1]"
  by (simp add: np_histogram_def histogram_range_def bin_index_def upt_rec)


lemma histogram_100_900:
  "np_histogram [100, 900] 21 =
     [1, 0, 0, 0, 0, 0, 0, 0, 0, 0, 0, 0, 0, 0, 0, 0, 0, 0, 0, 0, 1]"
  by (simp add: np_histogram_def histogram_range_def bin_index_def upt_rec)

lemma frame_analysis_last_frame_alone: "priv_frame_analysis [1000] 1000 = 0"
  by (simp add: priv_frame_analysis_def np_mean_def)

lemma frame_analysis_500_501: "priv_frame_analysis [500, 501] 1000 = 1"
  by (simp add: priv_frame_analysis_def np_mean_def histogram_500_501)


lemma frame_analysis_100_900: "priv_frame_analysis [100, 900] 1000 = 1"
  by (simp add: priv_frame_analysis_def np_mean_def histogram_100_900)

lemma frame_analysis_10_20: "priv_frame_analysis [10, 20] 1000 = 0"
  by (simp add: priv_frame_analysis_def np_mean_def)


theorem frame_analysis_idempotent_witness:
  "length [100, 900, 10, 20, 1000::nat] = length [0, 0, 1, 1, - 1::int] \<and>
   [100, 900, 10, 20, 1000::nat] \<noteq> [] \<and>
   frame_analysis [0, 0, 1, 1, - 1] [100, 900, 10, 20, 1000] = Inr [0, 0, - 1, - 1, - 1] \<and>
   frame_analysis [0, 0, - 1, - 1, - 1] [100, 900, 10, 20, 1000] = Inr [0, 0, - 1, - 1, - 1]"
proof -
  let ?L = "[0, 0, 1, 1, - 1::int]" and ?F = "[100, 900, 10, 20, 1000::nat]"
  have 1: "length ?F = length ?L" by simp
  have 2: "?F \<noteq> []" by simp
  have e: "frame_analysis ?L ?F = Inr [0, 0, - 1, - 1, - 1]"
    by (simp add: frame_analysis_Inr group_frames_def frame_analysis_100_900
        frame_analysis_10_20 frame_analysis_last_frame_alone)
  from frame_analysis_idempotent [OF 1 2] e
  have "frame_analysis [0, 0, - 1, - 1, - 1] ?F = Inr [0, 0, - 1, - 1, - 1]" by auto
  with 1 2 e show ?thesis by blast
qed

text \<open>
  C4. The histogram is taken over the cluster's own frames, from its smallest to its
  largest, not over the acquisition. With the frames 500 and 501 in a measurement of 1000
  frames both members fall into one twenty-first of the acquisition, yet the 21 bins of
  the code span \<open>[500, 501]\<close> and hold one member each at the two ends, and the cluster
  is kept.
\<close>

theorem burst_test_bins_span_cluster:
  "frame_analysis [0, 0, - 1] [500, 501, 1000] = Inr [0, 0, - 1] \<and>
   np_histogram (map real [500, 501]) 21 =
     [1, 0, 0, 0, 0, 0, 0, 0, 0, 0, 0, 0, 0, 0, 0, 0, 0, 0, 0, 0, 1] \<and>
   \<lfloor>(500::real) / 1000 * 21\<rfloor> = \<lfloor>(501::real) / 1000 * 21\<rfloor>"
proof -
  have a: "frame_analysis [0, 0, - 1] [500, 501, 1000] = Inr [0, 0, - 1]"
    by (simp add: frame_analysis_Inr group_frames_def frame_analysis_500_501
        frame_analysis_last_frame_alone)
  have b: "np_histogram (map real [500, 501]) 21 =
     [1, 0, 0, 0, 0, 0, 0, 0, 0, 0, 0, 0, 0, 0, 0, 0, 0, 0, 0, 0, 1]"
    by (simp add: histogram_500_501)
  have c: "\<lfloor>(500::real) / 1000 * 21\<rfloor> = \<lfloor>(501::real) / 1000 * 21\<rfloor>" by simp
  from a b c show ?thesis by blast
qed

section \<open>What the aggregator returns\<close>

lemma np_div_zero [simp]: "np_div a (Fin 0) = NonFin"
  by (cases a) simp_all

lemma np_div_NonFin [simp]: "np_div NonFin b = NonFin"
  by simp

lemma np_add_NonFin_right [simp]: "np_add a NonFin = NonFin"
  by (cases a) simp_all

lemma np_mul_NonFin_right [simp]: "np_mul a NonFin = NonFin"
  by (cases a) simp_all





lemma np_average_empty: "np_average a [] = Inl ZeroDivisionError"
  by (simp add: np_average_def np_sum_def)


















text \<open>
  The weights of \<open>error_sums_wtd\<close> are the second argument as it is given. With the
  precisions 1 and 2 it weighs the second point twice as much as the first; under the
  weights \<open>1 / lp\<^sup>2\<close> of the weighted mean the variance is another number.
\<close>

lemma error_sums_wtd_weights_example:
  "error_sums_wtd [0, 3] [1, 2] = Fin 2 \<and>
   weighted_variance [0, 3] [1 / 1\<^sup>2, 1 / 2\<^sup>2] = 36 / 25"
  by (simp add: error_sums_wtd_def Let_def np_sum_def weighted_variance_def
      weighted_mean_def lessThan_Suc power2_eq_square)

end
